theory Spec2Isabelle
  imports Main "HOL-Library.AList" "HOL-Library.Char_ord" "HOL-Library.List_Lexorder"
begin

section \<open>Python 2 byte strings\<close>

text \<open>
  bagit.py is Python 2 code: every file is opened in mode \<open>'rb'\<close> and every string it
  handles is a byte string (\<open>str\<close>), never decoded. A byte string is a \<open>string\<close>
  (a list of 8-bit \<open>char\<close>s) here. The functions of this section are the methods of
  \<open>str\<close> that the source calls, with the behaviour of CPython 2 in the C locale.
\<close>

definition NL :: char where
  "NL = CHR 0x0A"

definition BOM_UTF8 :: string where
  "BOM_UTF8 = [CHR 0xEF, CHR 0xBB, CHR 0xBF]"

text \<open>\<open>c.isspace()\<close> for one byte: space, tab, newline, vertical tab, form feed, return.\<close>

definition isspace_c :: "char \<Rightarrow> bool" where
  "isspace_c c = (c = CHR '' '' \<or> c = CHR 0x09 \<or> c = CHR 0x0A \<or> c = CHR 0x0B
                   \<or> c = CHR 0x0C \<or> c = CHR 0x0D)"

text \<open>\<open>s.isspace()\<close>: at least one byte, and all of them whitespace.\<close>

definition isspace :: "string \<Rightarrow> bool" where
  "isspace s = (s \<noteq> [] \<and> list_all isspace_c s)"

definition isdigit_c :: "char \<Rightarrow> bool" where
  "isdigit_c c = (CHR ''0'' \<le> c \<and> c \<le> CHR ''9'')"

text \<open>\<open>s.isdigit()\<close>: at least one byte, and all of them decimal digits.\<close>

definition isdigit :: "string \<Rightarrow> bool" where
  "isdigit s = (s \<noteq> [] \<and> list_all isdigit_c s)"

text \<open>\<open>s.strip()\<close>, and \<open>s.lstrip(chars)\<close>, which removes every leading byte that occurs in
  \<open>chars\<close> (a set of bytes, not a prefix).\<close>

definition strip :: "string \<Rightarrow> string" where
  "strip s = rev (dropWhile isspace_c (rev (dropWhile isspace_c s)))"

definition lstrip :: "string \<Rightarrow> string \<Rightarrow> string" where
  "lstrip chars s = dropWhile (\<lambda>c. c \<in> set chars) s"

definition startswith :: "string \<Rightarrow> string \<Rightarrow> bool" where
  "startswith s p = (take (length p) s = p)"

definition lower_c :: "char \<Rightarrow> char" where
  "lower_c c = (if CHR ''A'' \<le> c \<and> c \<le> CHR ''Z'' then char_of (of_char c + (32::nat)) else c)"

definition lower :: "string \<Rightarrow> string" where
  "lower s = map lower_c s"

text \<open>\<open>s.split(sep, 1)\<close> for a one-byte separator: one field when \<open>sep\<close> does not occur,
  else the text before its first occurrence and the text after it.\<close>

definition split1 :: "char \<Rightarrow> string \<Rightarrow> string list" where
  "split1 sep s =
     (case dropWhile (\<lambda>c. c \<noteq> sep) s of
        [] \<Rightarrow> [s]
      | _ # after \<Rightarrow> [takeWhile (\<lambda>c. c \<noteq> sep) s, after])"

text \<open>\<open>s.split(None, 1)\<close>: leading whitespace is skipped; no field when nothing is left;
  the first field runs to the next whitespace byte; the run of whitespace after it is
  skipped and what is left, if anything, is the second field.\<close>

definition split_ws1 :: "string \<Rightarrow> string list" where
  "split_ws1 s =
     (let s1 = dropWhile isspace_c s in
      if s1 = [] then []
      else
        let w = takeWhile (\<lambda>c. \<not> isspace_c c) s1;
            r = dropWhile isspace_c (dropWhile (\<lambda>c. \<not> isspace_c c) s1)
        in if r = [] then [w] else [w, r])"

text \<open>\<open>s.replace(old, new, 1)\<close> and \<open>s.replace(old, new)\<close>, for a non-empty \<open>old\<close> (the source
  never passes an empty one): the leftmost occurrence, or every occurrence from left to
  right without overlap, is replaced. With an empty \<open>old\<close> both return \<open>s\<close> here.\<close>

fun replace_first :: "string \<Rightarrow> string \<Rightarrow> string \<Rightarrow> string" where
  "replace_first old new [] = []"
| "replace_first old new (c # cs) =
     (if old \<noteq> [] \<and> take (length old) (c # cs) = old
      then new @ drop (length old) (c # cs)
      else c # replace_first old new cs)"

function replace :: "string \<Rightarrow> string \<Rightarrow> string \<Rightarrow> string" where
  "replace old new [] = []"
| "replace old new (c # cs) =
     (if old \<noteq> [] \<and> take (length old) (c # cs) = old
      then new @ replace old new (drop (length old) (c # cs))
      else c # replace old new cs)"
  by pat_completeness auto
termination
  by (relation "measure (\<lambda>(old, new, s). length s)") auto

text \<open>Iterating over a file opened in binary mode: the lines, each with its terminating
  newline byte; the last one has none when the file does not end in a newline.\<close>

fun lines_from :: "string \<Rightarrow> string \<Rightarrow> string list" where
  "lines_from cur [] = (if cur = [] then [] else [cur])"
| "lines_from cur (c # cs) =
     (if c = NL then (cur @ [c]) # lines_from [] cs else lines_from (cur @ [c]) cs)"

definition file_lines :: "string \<Rightarrow> string list" where
  "file_lines content = lines_from [] content"

section \<open>Exceptions\<close>

text \<open>
  The source raises \<open>BagError\<close>, its subclass \<open>BagValidationError\<close> and \<open>RuntimeError\<close>,
  each with a formatted message; the message is kept as the format's name and its
  arguments. The other constructors are the built-in exceptions that the source's own
  statements raise without catching them (\<open>parts[1]\<close> on a one-element list, \<open>None += str\<close>,
  unpacking one value into two names, a method missing on a file object) and the ones
  that the operating system's calls raise.
\<close>

datatype message =
    No_bagit_txt_found string
  | Missing_required_tag string
  | Unsupported_bag_version string
  | Unsupported_encoding string
  | Missing_data_directory
  | Missing_manifest_file
  | Missing_bagit_txt
  | Fast_without_oxum
  | Invalid_oxum string
  | Oxum_error nat nat nat nat
  | Failed_checksum_validation string nat "string list"
  | Does_not_exist string
  | Bagit_txt_has_BOM
  | No_supported_algorithm string "string list"

datatype exn =
    BagError message
  | BagValidationError message
  | RuntimeError message
  | IOError string
  | OSError string
  | KeyError string
  | IndexError
  | TypeError
  | ValueError
  | AttributeError

text \<open>\<open>except BagError\<close> catches \<open>BagError\<close> and its subclass, nothing else.\<close>

fun is_BagError :: "exn \<Rightarrow> bool" where
  "is_BagError (BagError m) = True"
| "is_BagError (BagValidationError m) = True"
| "is_BagError e = False"

section \<open>Tag files\<close>

text \<open>
  \<open>_parse_tags\<close> is a generator over the lines of the file; \<open>tag_name\<close> and \<open>tag_value\<close>
  start as \<open>None\<close> and are always assigned together, so the pair is one optional value
  here. \<open>yield_last\<close> is the statement \<open>if tag_name: yield (tag_name, tag_value)\<close>: the
  test is Python's truth value of \<open>tag_name\<close>, false for \<open>None\<close> and for the empty string.
  The result is what the caller's \<open>dict(...)\<close> receives: the tags in the order yielded, or
  the exception that ends the iteration.
\<close>

type_synonym tag = "string \<times> string"

definition yield_last :: "tag option \<Rightarrow> tag list" where
  "yield_last st = (case st of None \<Rightarrow> [] | Some (tag_name, tag_value) \<Rightarrow>
                      if tag_name = [] then [] else [(tag_name, tag_value)])"

fun parse_tags_from :: "nat \<Rightarrow> tag option \<Rightarrow> string list \<Rightarrow> exn + tag list" where
  "parse_tags_from num st [] = Inr (yield_last st)"
| "parse_tags_from num st (line0 # rest) =
     (let line = (if num = 0 \<and> startswith line0 BOM_UTF8 then lstrip BOM_UTF8 line0 else line0) in
      if length line = 0 \<or> isspace line then parse_tags_from (Suc num) st rest
      else if isspace_c (hd line) then
        (case st of
           None \<Rightarrow> Inl TypeError
         | Some (tag_name, tag_value) \<Rightarrow>
             parse_tags_from (Suc num) (Some (tag_name, tag_value @ strip line)) rest)
      else
        (case split1 (CHR '':'') (strip line) of
           [p0, p1] \<Rightarrow>
             (case parse_tags_from (Suc num) (Some (strip p0, strip p1)) rest of
                Inl e \<Rightarrow> Inl e
              | Inr tags \<Rightarrow> Inr (yield_last st @ tags))
         | _ \<Rightarrow> Inl IndexError))"

definition parse_tags :: "string list \<Rightarrow> exn + tag list" where
  "parse_tags file = parse_tags_from 0 None file"

text \<open>\<open>dict(pairs)\<close>: a dictionary is an association list in which a key occurs once; a
  later pair with the same key replaces the value of an earlier one.\<close>

definition dict_of :: "('k \<times> 'v) list \<Rightarrow> ('k \<times> 'v) list" where
  "dict_of pairs = foldl (\<lambda>d (k, v). AList.update k v d) [] pairs"

section \<open>Paths and the operating system\<close>

text \<open>
  The functions of \<open>os.path\<close> that only compute on path strings are the ones of a POSIX
  host (\<open>os.sep\<close> is \<open>/\<close>), transcribed from CPython's \<open>posixpath\<close>: \<open>join\<close> for two
  arguments, \<open>basename\<close> and \<open>normpath\<close>.
\<close>

definition sep :: string where
  "sep = ''/''"

definition endswith :: "string \<Rightarrow> string \<Rightarrow> bool" where
  "endswith s p = (length p \<le> length s \<and> drop (length s - length p) s = p)"

definition join :: "string \<Rightarrow> string \<Rightarrow> string" where
  "join a b =
     (if startswith b ''/'' then b
      else if a = [] \<or> endswith a ''/'' then a @ b
      else a @ ''/'' @ b)"

definition basename :: "string \<Rightarrow> string" where
  "basename p = rev (takeWhile (\<lambda>c. c \<noteq> CHR ''/'') (rev p))"

text \<open>\<open>s.split(sep)\<close> for a one-byte separator, and \<open>sep.join(parts)\<close>.\<close>

fun split_from :: "char \<Rightarrow> string \<Rightarrow> string \<Rightarrow> string list" where
  "split_from c cur [] = [cur]"
| "split_from c cur (x # xs) =
     (if x = c then cur # split_from c [] xs else split_from c (cur @ [x]) xs)"

definition split :: "char \<Rightarrow> string \<Rightarrow> string list" where
  "split c s = split_from c [] s"

fun str_join :: "string \<Rightarrow> string list \<Rightarrow> string" where
  "str_join s [] = []"
| "str_join s [p] = p"
| "str_join s (p # q # ps) = p @ s @ str_join s (q # ps)"

text \<open>The loop of \<open>normpath\<close> over the components: \<open>initial\<close> says that the path starts
  with a slash.\<close>

fun normpath_comps :: "bool \<Rightarrow> string list \<Rightarrow> string list \<Rightarrow> string list" where
  "normpath_comps initial new_comps [] = new_comps"
| "normpath_comps initial new_comps (component # comps) =
     (if component = [] \<or> component = ''.'' then normpath_comps initial new_comps comps
      else if component \<noteq> ''..'' \<or> (\<not> initial \<and> new_comps = [])
                \<or> (new_comps \<noteq> [] \<and> last new_comps = ''..'')
        then normpath_comps initial (new_comps @ [component]) comps
      else if new_comps \<noteq> [] then normpath_comps initial (butlast new_comps) comps
      else normpath_comps initial new_comps comps)"

definition normpath :: "string \<Rightarrow> string" where
  "normpath p =
     (if p = [] then ''.''
      else
        let initial_slashes =
              (if startswith p ''/'' then
                 (if startswith p ''//'' \<and> \<not> startswith p ''///'' then 2 else 1)
               else (0::nat));
            comps = normpath_comps (0 < initial_slashes) [] (split (CHR ''/'') p);
            joined = replicate initial_slashes (CHR ''/'') @ str_join ''/'' comps
        in if joined = [] then ''.'' else joined)"

text \<open>
  What the calls into the operating system answer is a parameter: a record of the
  functions the source calls. \<open>os_walk\<close> is the list of \<open>(dirpath, dirnames, filenames)\<close>
  that \<open>os.walk\<close> yields (it raises nothing: it skips what it cannot list). \<open>open_rb\<close> is
  \<open>open(name, 'rb')\<close> followed by reading the file to its end: the bytes, or the
  exception of the \<open>open\<close>. One record is one state of the file system; a call of the
  model sees the same state throughout.
\<close>

record os =
  os_path_isfile :: "string \<Rightarrow> bool"
  os_path_isdir :: "string \<Rightarrow> bool"
  os_path_exists :: "string \<Rightarrow> bool"
  os_listdir :: "string \<Rightarrow> exn + string list"
  os_walk :: "string \<Rightarrow> (string \<times> string list \<times> string list) list"
  os_stat_st_size :: "string \<Rightarrow> exn + nat"
  open_rb :: "string \<Rightarrow> exn + string"

definition isfile :: "os \<Rightarrow> string \<Rightarrow> bool" where
  "isfile os p = os_path_isfile os p"

text \<open>\<open>isdir\<close> of the source: for a path that starts with \<open>http://\<close> it opens the path as
  a file and calls \<open>getcode()\<close> on the file object, which has no such method.\<close>

definition isdir :: "os \<Rightarrow> string \<Rightarrow> exn + bool" where
  "isdir os p =
     (if startswith p ''http://'' then
        (case open_rb os p of Inl e \<Rightarrow> Inl e | Inr content \<Rightarrow> Inl AttributeError)
      else Inr (os_path_isdir os p))"

text \<open>
  \<open>hashlib\<close> is a parameter too: \<open>hashlib_new\<close> is \<open>hashlib.new(alg)\<close>, a fresh hash object
  or the exception raised for the name; \<open>hashlib_md5\<close> is \<open>hashlib.md5()\<close>; \<open>hash_update\<close>
  and \<open>hash_hexdigest\<close> are the two methods of a hash object of type \<open>'h\<close>.
\<close>

record 'h hashlib =
  hashlib_new :: "string \<Rightarrow> exn + 'h"
  hashlib_md5 :: "'h"
  hash_update :: "'h \<Rightarrow> string \<Rightarrow> 'h"
  hash_hexdigest :: "'h \<Rightarrow> string"

section \<open>The bag\<close>

text \<open>
  The attributes of a \<open>Bag\<close> object. The dictionaries \<open>tags\<close>, \<open>info\<close>, \<open>entries\<close> (path
  to algorithm to digest) and the ones in \<open>entries\<close> are association lists in which a key
  occurs once: a new key goes to the end, a key that is already there keeps its place. Python 2 iterates a dictionary in an order of its own
  choosing; the order of the list stands for it, and no theorem below depends on which
  order it is. \<open>version\<close> and \<open>encoding\<close> do not exist before \<open>_open\<close> has
  assigned them. A bag made with \<open>path=None\<close> is not modelled: \<open>path\<close> is a string.
\<close>

type_synonym hashes = "(string \<times> string) list"

record bag =
  tags :: "(string \<times> string) list"
  info :: "(string \<times> string) list"
  entries :: "(string \<times> hashes) list"
  algs :: "string list"
  tag_file_name :: "string option"
  path :: string
  version :: "string option"
  encoding :: "string option"

definition checksum_algos :: "string list" where
  "checksum_algos = [''md5'', ''sha1'']"

definition load_tag_file :: "os \<Rightarrow> string \<Rightarrow> exn + (string \<times> string) list" where
  "load_tag_file os file_name =
     (case open_rb os file_name of
        Inl e \<Rightarrow> Inl e
      | Inr content \<Rightarrow>
          (case parse_tags (file_lines content) of
             Inl e \<Rightarrow> Inl e
           | Inr pairs \<Rightarrow> Inr (dict_of pairs)))"

definition manifest_files :: "os \<Rightarrow> bag \<Rightarrow> string list" where
  "manifest_files os self =
     filter (isfile os)
       (map (\<lambda>filename. join (path self) filename)
          (map (\<lambda>a. ''manifest-'' @ a @ ''.txt'') checksum_algos))"

text \<open>
  What \<open>_load_manifests\<close> writes to the log: \<open>logging.error\<close> for a line that does not
  split into two fields, \<open>logging.warning\<close> for a path that the same algorithm lists
  again; each with the arguments of its format (the bag, the algorithm, the line or the
  path).
\<close>

datatype log_record =
    Invalid_manifest_entry string string string
  | Duplicate_manifest_entry string string string

fun load_manifest_lines ::
  "string \<Rightarrow> string \<Rightarrow> string list \<Rightarrow> (string \<times> hashes) list \<times> log_record list
     \<Rightarrow> (string \<times> hashes) list \<times> log_record list" where
  "load_manifest_lines self alg [] (ents, log) = (ents, log)"
| "load_manifest_lines self alg (line0 # rest) (ents, log) =
     (let line = strip line0 in
      if line = [] \<or> startswith line ''#'' then load_manifest_lines self alg rest (ents, log)
      else
        (case split_ws1 line of
           [entry_hash, entry1] \<Rightarrow>
             (let entry_path = normpath (lstrip ''*'' entry1) in
              case map_of ents entry_path of
                Some hs \<Rightarrow>
                  load_manifest_lines self alg rest
                    (AList.update entry_path (AList.update alg entry_hash hs) ents,
                     if map_of hs alg \<noteq> None
                     then log @ [Duplicate_manifest_entry self alg entry_path] else log)
              | None \<Rightarrow>
                  load_manifest_lines self alg rest
                    (AList.update entry_path [(alg, entry_hash)] ents, log))
         | _ \<Rightarrow>
             load_manifest_lines self alg rest
               (ents, log @ [Invalid_manifest_entry self alg line])))"

fun load_manifests_from ::
  "os \<Rightarrow> string list \<Rightarrow> bag \<times> log_record list \<Rightarrow> exn + bag \<times> log_record list" where
  "load_manifests_from os [] (self, log) = Inr (self, log)"
| "load_manifests_from os (manifest_file # rest) (self, log) =
     (let alg = replace ''.txt'' [] (replace ''manifest-'' [] (basename manifest_file));
          self1 = self\<lparr>algs := algs self @ [alg]\<rparr>
      in case open_rb os manifest_file of
           Inl e \<Rightarrow> Inl e
         | Inr content \<Rightarrow>
             (let (ents, log1) =
                    load_manifest_lines (path self1) alg (file_lines content) (entries self1, log)
              in load_manifests_from os rest (self1\<lparr>entries := ents\<rparr>, log1)))"

definition load_manifests :: "os \<Rightarrow> bag \<Rightarrow> exn + bag \<times> log_record list" where
  "load_manifests os self = load_manifests_from os (manifest_files os self) (self, [])"

text \<open>\<open>_open\<close>: the bag declaration, the metadata tag file when it exists, the manifests.\<close>

definition version_tag_file_name :: "string \<Rightarrow> string option" where
  "version_tag_file_name v =
     (if v = ''0.95'' then Some ''package-info.txt''
      else if v = ''0.96'' then Some ''bag-info.txt''
      else None)"

definition bag_open :: "os \<Rightarrow> bag \<Rightarrow> exn + bag \<times> log_record list" where
  "bag_open os self =
     (let bagit_file_path = join (path self) ''bagit.txt'' in
      if \<not> isfile os bagit_file_path then Inl (BagError (No_bagit_txt_found bagit_file_path))
      else
        case load_tag_file os bagit_file_path of
          Inl e \<Rightarrow> Inl e
        | Inr tgs \<Rightarrow>
            (case map_of tgs ''BagIt-Version'' of
               None \<Rightarrow> Inl (BagError (Missing_required_tag ''BagIt-Version''))
             | Some v \<Rightarrow>
                 (case map_of tgs ''Tag-File-Character-Encoding'' of
                    None \<Rightarrow> Inl (BagError (Missing_required_tag ''Tag-File-Character-Encoding''))
                  | Some enc \<Rightarrow>
                      (case version_tag_file_name v of
                         None \<Rightarrow> Inl (BagError (Unsupported_bag_version v))
                       | Some tfn \<Rightarrow>
                           if lower enc \<noteq> ''utf-8''
                           then Inl (BagValidationError (Unsupported_encoding enc))
                           else
                             (let info_file_path = join (path self) tfn in
                              case (if os_path_exists os info_file_path
                                    then load_tag_file os info_file_path
                                    else Inr (info self)) of
                                Inl e \<Rightarrow> Inl e
                              | Inr info1 \<Rightarrow>
                                  load_manifests os
                                    (self\<lparr>tags := tgs, info := info1, tag_file_name := Some tfn,
                                          version := Some v, encoding := Some enc\<rparr>))))))"

text \<open>\<open>Bag(path)\<close>: the constructor. A trailing separator is cut off; an empty path
  leaves the bag blank and opens nothing.\<close>

definition Bag :: "os \<Rightarrow> string \<Rightarrow> exn + bag \<times> log_record list" where
  "Bag os p =
     (let self = \<lparr>tags = [], info = [], entries = [], algs = [],
                  tag_file_name = None, path = p, version = None, encoding = None\<rparr>
      in if p \<noteq> [] then
           bag_open os (if [last p] = sep then self\<lparr>path := butlast p\<rparr> else self)
         else Inr (self, []))"

section \<open>Validation\<close>

text \<open>\<open>payload_files\<close>: every file name that the walk of \<open>data\<close> yields, joined to its
  directory, with the first occurrence of the bag's path and a separator removed.\<close>

definition payload_files :: "os \<Rightarrow> bag \<Rightarrow> string list" where
  "payload_files os self =
     (let payload_dir = join (path self) ''data'' in
      concat
        (map (\<lambda>(dirpath, dirnames, filenames).
                map (\<lambda>f. replace_first (path self @ sep) []
                            (join dirpath (normpath (replace [CHR 0x5C] ''/'' f))))
                    filenames)
             (os_walk os payload_dir)))"

text \<open>\<open>compare_manifests_with_fs\<close> returns two lists made from set differences; the
  order of such a list is not fixed in Python, and is the order of first occurrence
  here.\<close>

definition compare_manifests_with_fs :: "os \<Rightarrow> bag \<Rightarrow> string list \<times> string list" where
  "compare_manifests_with_fs os self =
     (let files_on_fs = payload_files os self;
          files_in_manifest = map fst (entries self)
      in (remdups (filter (\<lambda>p. p \<notin> set files_on_fs) files_in_manifest),
          remdups (filter (\<lambda>p. p \<notin> set files_in_manifest) files_on_fs)))"

definition has_oxum :: "bag \<Rightarrow> bool" where
  "has_oxum self = (map_of (info self) ''Payload-Oxum'' \<noteq> None)"

definition validate_structure_payload_directory :: "os \<Rightarrow> bag \<Rightarrow> exn + unit" where
  "validate_structure_payload_directory os self =
     (let data_dir_path = join (path self) ''data'' in
      case isdir os data_dir_path of
        Inl e \<Rightarrow> Inl e
      | Inr d \<Rightarrow> if \<not> d then Inl (BagValidationError Missing_data_directory) else Inr ())"

definition validate_structure_tag_files :: "os \<Rightarrow> bag \<Rightarrow> exn + unit" where
  "validate_structure_tag_files os self =
     (if length (manifest_files os self) = 0 then Inl (BagValidationError Missing_manifest_file)
      else
        case os_listdir os (path self) of
          Inl e \<Rightarrow> Inl e
        | Inr names \<Rightarrow>
            if ''bagit.txt'' \<notin> set names then Inl (BagValidationError Missing_bagit_txt)
            else Inr ())"

definition validate_structure :: "os \<Rightarrow> bag \<Rightarrow> exn + unit" where
  "validate_structure os self =
     (case validate_structure_payload_directory os self of
        Inl e \<Rightarrow> Inl e
      | Inr u \<Rightarrow> validate_structure_tag_files os self)"

definition validate_bagittxt :: "os \<Rightarrow> bag \<Rightarrow> exn + unit" where
  "validate_bagittxt os self =
     (let bagit_file_path = join (path self) ''bagit.txt'' in
      case open_rb os bagit_file_path of
        Inl e \<Rightarrow> Inl e
      | Inr content \<Rightarrow>
          (let first_line = (case file_lines content of [] \<Rightarrow> [] | l # ls \<Rightarrow> l) in
           if startswith first_line BOM_UTF8 then Inl (BagValidationError Bagit_txt_has_BOM)
           else Inr ()))"

text \<open>\<open>long(s)\<close> for a string of decimal digits.\<close>

definition long :: "string \<Rightarrow> nat" where
  "long s = foldl (\<lambda>n c. 10 * n + (of_char c - 48)) 0 s"

text \<open>The loop of \<open>_validate_oxum\<close> over the payload files: it adds up the sizes that
  \<open>os.stat\<close> gives and counts the files.\<close>

fun oxum_totals :: "os \<Rightarrow> string \<Rightarrow> string list \<Rightarrow> nat \<times> nat \<Rightarrow> exn + nat \<times> nat" where
  "oxum_totals os root [] (total_bytes, total_files) = Inr (total_bytes, total_files)"
| "oxum_totals os root (payload_file # rest) (total_bytes, total_files) =
     (case os_stat_st_size os (join root payload_file) of
        Inl e \<Rightarrow> Inl e
      | Inr st_size \<Rightarrow> oxum_totals os root rest (total_bytes + st_size, total_files + 1))"

definition validate_oxum :: "os \<Rightarrow> bag \<Rightarrow> exn + unit" where
  "validate_oxum os self =
     (case map_of (info self) ''Payload-Oxum'' of
        None \<Rightarrow> Inr ()
      | Some oxum \<Rightarrow>
          (case split1 (CHR ''.'') oxum of
             [byte_count, file_count] \<Rightarrow>
               if \<not> isdigit byte_count \<or> \<not> isdigit file_count
               then Inl (BagError (Invalid_oxum oxum))
               else
                 (case oxum_totals os (path self) (payload_files os self) (0, 0) of
                    Inl e \<Rightarrow> Inl e
                  | Inr (total_bytes, total_files) \<Rightarrow>
                      if long file_count \<noteq> total_files \<or> long byte_count \<noteq> total_bytes
                      then Inl (BagValidationError
                                  (Oxum_error total_files total_bytes
                                     (long file_count) (long byte_count)))
                      else Inr ())
           | _ \<Rightarrow> Inl ValueError))"

text \<open>
  The dictionary \<open>hashers\<close> of \<open>_validate_entries\<close>: one hash object for every algorithm
  of the bag that \<open>hashlib.new\<close> knows; a \<open>KeyError\<close> is logged and the algorithm left
  out, any other exception is not caught.
\<close>

fun is_KeyError :: "exn \<Rightarrow> bool" where
  "is_KeyError (KeyError k) = True"
| "is_KeyError e = False"

fun make_hashers :: "'h hashlib \<Rightarrow> string list \<Rightarrow> (string \<times> 'h) list \<Rightarrow> exn + (string \<times> 'h) list" where
  "make_hashers hl [] hashers = Inr hashers"
| "make_hashers hl (alg # rest) hashers =
     (case hashlib_new hl alg of
        Inr h \<Rightarrow> make_hashers hl rest (AList.update alg h hashers)
      | Inl e \<Rightarrow> if is_KeyError e then make_hashers hl rest hashers else Inl e)"

text \<open>The dictionary \<open>f_hashers\<close>: a fresh hash object for every algorithm of \<open>hashers\<close>
  that the entry has a digest for.\<close>

fun new_hashers :: "'h hashlib \<Rightarrow> string list \<Rightarrow> exn + (string \<times> 'h) list" where
  "new_hashers hl [] = Inr []"
| "new_hashers hl (alg # rest) =
     (case hashlib_new hl alg of
        Inl e \<Rightarrow> Inl e
      | Inr h \<Rightarrow>
          (case new_hashers hl rest of
             Inl e \<Rightarrow> Inl e
           | Inr hs \<Rightarrow> Inr (AList.update alg h hs)))"

text \<open>The loop \<open>while True: block = f.read(n) ...\<close> of \<open>_calculate_file_hashes\<close>: \<open>f\<close> is
  what is left to read; every hash object is updated with every block.\<close>

function read_blocks :: "'h hashlib \<Rightarrow> nat \<Rightarrow> string \<Rightarrow> (string \<times> 'h) list \<Rightarrow> (string \<times> 'h) list" where
  "read_blocks hl n f f_hashers =
     (let block = take n f in
      if block = [] then f_hashers
      else read_blocks hl n (drop n f) (map (\<lambda>(alg, h). (alg, hash_update hl h block)) f_hashers))"
  by pat_completeness auto
termination
  by (relation "measure (\<lambda>(hl, n, f, f_hashers). length f)") auto

declare read_blocks.simps [simp del]

definition calculate_file_hashes ::
  "os \<Rightarrow> 'h hashlib \<Rightarrow> string \<Rightarrow> (string \<times> 'h) list \<Rightarrow> exn + (string \<times> string) list" where
  "calculate_file_hashes os hl full_path f_hashers =
     (if \<not> os_path_exists os full_path then Inl (BagValidationError (Does_not_exist full_path))
      else
        case open_rb os full_path of
          Inl e \<Rightarrow> Inl e
        | Inr content \<Rightarrow>
            (case os_stat_st_size os full_path of
               Inl e \<Rightarrow> Inl e
             | Inr f_size \<Rightarrow>
                 Inr (map (\<lambda>(alg, h). (alg, hash_hexdigest hl h))
                        (read_blocks hl 1048576 content f_hashers))))"

text \<open>The loop of \<open>_validate_entries\<close> over the entries. An exception of
  \<open>_calculate_file_hashes\<close> is raised again, whatever its class; a digest that differs
  from the stored one adds \<open>"%s (%s)" % (full_path, alg)\<close> to \<open>errors\<close>.\<close>

fun check_entries ::
  "os \<Rightarrow> 'h hashlib \<Rightarrow> string \<Rightarrow> (string \<times> 'h) list \<Rightarrow> (string \<times> hashes) list
     \<Rightarrow> string list \<Rightarrow> exn + string list" where
  "check_entries os hl root hashers [] errors = Inr errors"
| "check_entries os hl root hashers ((rel_path, hs) # rest) errors =
     (let full_path = join root rel_path in
      case new_hashers hl (filter (\<lambda>alg. alg \<in> set (map fst hs)) (map fst hashers)) of
        Inl e \<Rightarrow> Inl e
      | Inr f_hashers \<Rightarrow>
          (case calculate_file_hashes os hl full_path f_hashers of
             Inl e \<Rightarrow> Inl e
           | Inr f_hashes \<Rightarrow>
               check_entries os hl root hashers rest
                 (errors @
                    map (\<lambda>(alg, computed_hash). full_path @ '' ('' @ alg @ '')'')
                      (filter (\<lambda>(alg, computed_hash). map_of hs alg \<noteq> Some computed_hash)
                         f_hashes))))"

definition validate_entries :: "os \<Rightarrow> 'h hashlib \<Rightarrow> bag \<Rightarrow> exn + unit" where
  "validate_entries os hl self =
     (let (only_in_manifests, only_on_fs) = compare_manifests_with_fs os self;
          errors = only_in_manifests @ only_on_fs
      in case make_hashers hl (algs self) [] of
           Inl e \<Rightarrow> Inl e
         | Inr hashers \<Rightarrow>
             if hashers = [] then Inl (RuntimeError (No_supported_algorithm (path self) (algs self)))
             else
               (case check_entries os hl (path self) hashers (entries self) errors of
                  Inl e \<Rightarrow> Inl e
                | Inr errors1 \<Rightarrow>
                    if errors1 \<noteq> []
                    then Inl (BagValidationError
                                (Failed_checksum_validation (path self) (length errors1) errors1))
                    else Inr ()))"

definition validate_contents :: "os \<Rightarrow> 'h hashlib \<Rightarrow> bag \<Rightarrow> bool \<Rightarrow> exn + unit" where
  "validate_contents os hl self fast =
     (if fast \<and> \<not> has_oxum self then Inl (BagValidationError Fast_without_oxum)
      else
        case validate_oxum os self of
          Inl e \<Rightarrow> Inl e
        | Inr u \<Rightarrow> if \<not> fast then validate_entries os hl self else Inr ())"

definition validate :: "os \<Rightarrow> 'h hashlib \<Rightarrow> bag \<Rightarrow> bool \<Rightarrow> exn + bool" where
  "validate os hl self fast =
     (case validate_structure os self of
        Inl e \<Rightarrow> Inl e
      | Inr u \<Rightarrow>
          (case validate_bagittxt os self of
             Inl e \<Rightarrow> Inl e
           | Inr u \<Rightarrow>
               (case validate_contents os hl self fast of
                  Inl e \<Rightarrow> Inl e
                | Inr u \<Rightarrow> Inr True)))"

definition is_valid :: "os \<Rightarrow> 'h hashlib \<Rightarrow> bag \<Rightarrow> bool \<Rightarrow> exn + bool" where
  "is_valid os hl self fast =
     (case validate os hl self fast of
        Inl e \<Rightarrow> if is_BagError e then Inr False else Inl e
      | Inr v \<Rightarrow> Inr True)"

section \<open>Writing a manifest\<close>

text \<open>\<open>"%s" % n\<close> for a number that is not negative.\<close>

definition digit :: "nat \<Rightarrow> char" where
  "digit n = ''0123456789'' ! n"

fun str_of_nat :: "nat \<Rightarrow> string" where
  "str_of_nat n =
     (if n < 10 then [digit n]
      else str_of_nat (n div 10) @ [digit (n mod 10)])"

declare str_of_nat.simps [simp del]

definition walk :: "os \<Rightarrow> string \<Rightarrow> string list" where
  "walk os data_dir =
     concat
       (map (\<lambda>(dirpath, dirnames, filenames).
               map (\<lambda>fn. let p = join dirpath fn in
                          if sep \<noteq> ''/'' then str_join ''/'' (split (hd sep) p) else p)
                   filenames)
            (os_walk os data_dir))"

text \<open>The loop of \<open>_manifest_line\<close>: blocks of 16384 bytes go into the MD5 object and
  are counted.\<close>

function md5_blocks :: "'h hashlib \<Rightarrow> string \<Rightarrow> 'h \<times> nat \<Rightarrow> 'h \<times> nat" where
  "md5_blocks hl fh (m, total_bytes) =
     (let bytes = take 16384 fh; total_bytes1 = total_bytes + length bytes in
      if bytes = [] then (m, total_bytes1)
      else md5_blocks hl (drop 16384 fh) (hash_update hl m bytes, total_bytes1))"
  by pat_completeness auto
termination
  by (relation "measure (\<lambda>(hl, fh, acc). length fh)") auto

declare md5_blocks.simps [simp del]

definition manifest_line :: "os \<Rightarrow> 'h hashlib \<Rightarrow> string \<Rightarrow> exn + string \<times> string \<times> nat" where
  "manifest_line os hl filename =
     (case open_rb os filename of
        Inl e \<Rightarrow> Inl e
      | Inr content \<Rightarrow>
          (let (m, total_bytes) = md5_blocks hl content (hashlib_md5 hl, 0) in
           Inr (hash_hexdigest hl m, filename, total_bytes)))"

text \<open>\<open>map(f, xs)\<close> for an \<open>f\<close> that can raise: the results in the order of \<open>xs\<close>, or the
  first exception. \<open>pool.map\<close> returns the results in the same order.\<close>

fun map_exn :: "('a \<Rightarrow> exn + 'b) \<Rightarrow> 'a list \<Rightarrow> exn + 'b list" where
  "map_exn f [] = Inr []"
| "map_exn f (x # xs) =
     (case f x of
        Inl e \<Rightarrow> Inl e
      | Inr y \<Rightarrow> (case map_exn f xs of Inl e \<Rightarrow> Inl e | Inr ys \<Rightarrow> Inr (y # ys)))"

text \<open>The loop of \<open>_make_manifest\<close> that writes the lines: the bytes written so far, the
  number of files and the number of bytes.\<close>

fun write_lines :: "(string \<times> string \<times> nat) list \<Rightarrow> string \<times> nat \<times> nat \<Rightarrow> string \<times> nat \<times> nat" where
  "write_lines [] (manifest, num_files, total_bytes) = (manifest, num_files, total_bytes)"
| "write_lines ((digest, filename, bytes) # rest) (manifest, num_files, total_bytes) =
     write_lines rest
       (manifest @ digest @ ''  '' @ filename @ [NL], num_files + 1, total_bytes + bytes)"

text \<open>\<open>_make_manifest\<close>: the result is the content written to \<open>manifest_file\<close> and the
  string returned. Opening the manifest for writing is taken to succeed.\<close>

definition make_manifest ::
  "os \<Rightarrow> 'h hashlib \<Rightarrow> string \<Rightarrow> string \<Rightarrow> int \<Rightarrow> exn + string \<times> string" where
  "make_manifest os hl manifest_file data_dir processes =
     (case (if processes > 1 then map_exn (manifest_line os hl) (walk os data_dir)
            else map_exn (manifest_line os hl) (walk os data_dir)) of
        Inl e \<Rightarrow> Inl e
      | Inr checksums \<Rightarrow>
          (let (manifest, num_files, total_bytes) = write_lines checksums ([], 0, 0) in
           Inr (manifest, str_of_nat total_bytes @ ''.'' @ str_of_nat num_files)))"

section \<open>Example bags\<close>

text \<open>
  A small file system for the closed examples below: regular files with their content,
  directories, what \<open>os.listdir\<close> answers for a directory and what \<open>os.walk\<close> yields
  for one. The size of a file is the length of its content. The example \<open>hashlib\<close> knows
  the algorithms of \<open>checksum_algos\<close> and raises \<open>KeyError\<close> for any other name; its hash
  object is the list of the bytes fed to it, and its digest is their number in decimal.
\<close>

definition example_os ::
  "(string \<times> string) list \<Rightarrow> string list \<Rightarrow> string list
     \<Rightarrow> (string \<times> string list \<times> string list) list \<Rightarrow> os" where
  "example_os files dirs listing walked =
     \<lparr>os_path_isfile = (\<lambda>p. map_of files p \<noteq> None),
      os_path_isdir = (\<lambda>p. p \<in> set dirs),
      os_path_exists = (\<lambda>p. map_of files p \<noteq> None \<or> p \<in> set dirs),
      os_listdir = (\<lambda>p. if p \<in> set dirs then Inr listing else Inl (OSError p)),
      os_walk = (\<lambda>p. if p \<in> set dirs then walked else []),
      os_stat_st_size =
        (\<lambda>p. case map_of files p of Some c \<Rightarrow> Inr (length c) | None \<Rightarrow> Inl (OSError p)),
      open_rb = (\<lambda>p. case map_of files p of Some c \<Rightarrow> Inr c | None \<Rightarrow> Inl (IOError p))\<rparr>"

definition example_hashlib :: "string hashlib" where
  "example_hashlib =
     \<lparr>hashlib_new = (\<lambda>a. if a \<in> set checksum_algos then Inr [] else Inl (KeyError a)),
      hashlib_md5 = [],
      hash_update = (\<lambda>h block. h @ block),
      hash_hexdigest = (\<lambda>h. str_of_nat (length h))\<rparr>"

definition bagit_txt :: string where
  "bagit_txt = ''BagIt-Version: 0.96'' @ [NL] @ ''Tag-File-Character-Encoding: UTF-8'' @ [NL]"

definition bagit_tags :: "(string \<times> string) list" where
  "bagit_tags = [(''BagIt-Version'', ''0.96''), (''Tag-File-Character-Encoding'', ''UTF-8'')]"

text \<open>A bag in \<open>/bag\<close> whose manifest lists \<open>data/a.txt\<close> while the payload directory holds
  \<open>data/b.txt\<close> only.\<close>

definition os_missing :: os where
  "os_missing =
     example_os
       [(''/bag/bagit.txt'', bagit_txt),
        (''/bag/manifest-md5.txt'', ''3  data/a.txt'' @ [NL]),
        (''/bag/data/b.txt'', ''xyz'')]
       [''/bag'', ''/bag/data'']
       [''bagit.txt'', ''manifest-md5.txt'', ''data'']
       [(''/bag/data'', [], [''b.txt''])]"

definition bag_missing :: bag where
  "bag_missing =
     \<lparr>tags = bagit_tags, info = [], entries = [(''data/a.txt'', [(''md5'', ''3'')])],
      algs = [''md5''], tag_file_name = Some ''bag-info.txt'', path = ''/bag'',
      version = Some ''0.96'', encoding = Some ''UTF-8''\<rparr>"

text \<open>A bag in \<open>/bag\<close> with one payload file of three bytes, the right digest in its
  manifest and a \<open>Payload-Oxum\<close> that declares five bytes.\<close>

definition os_oxum :: os where
  "os_oxum =
     example_os
       [(''/bag/bagit.txt'', bagit_txt),
        (''/bag/bag-info.txt'', ''Payload-Oxum: 5.1'' @ [NL]),
        (''/bag/manifest-md5.txt'', ''3  data/a.txt'' @ [NL]),
        (''/bag/data/a.txt'', ''xyz'')]
       [''/bag'', ''/bag/data'']
       [''bagit.txt'', ''bag-info.txt'', ''manifest-md5.txt'', ''data'']
       [(''/bag/data'', [], [''a.txt''])]"

definition bag_oxum :: bag where
  "bag_oxum =
     \<lparr>tags = bagit_tags, info = [(''Payload-Oxum'', ''5.1'')],
      entries = [(''data/a.txt'', [(''md5'', ''3'')])],
      algs = [''md5''], tag_file_name = Some ''bag-info.txt'', path = ''/bag'',
      version = Some ''0.96'', encoding = Some ''UTF-8''\<rparr>"

text \<open>A bag in \<open>/bag\<close> whose payload is one file of no bytes and whose \<open>Payload-Oxum\<close> is
  \<open>0.1\<close>.\<close>

definition os_empty_file :: os where
  "os_empty_file =
     example_os
       [(''/bag/bagit.txt'', bagit_txt),
        (''/bag/bag-info.txt'', ''Payload-Oxum: 0.1'' @ [NL]),
        (''/bag/manifest-md5.txt'', ''0  data/empty.txt'' @ [NL]),
        (''/bag/data/empty.txt'', [])]
       [''/bag'', ''/bag/data'']
       [''bagit.txt'', ''bag-info.txt'', ''manifest-md5.txt'', ''data'']
       [(''/bag/data'', [], [''empty.txt''])]"

definition bag_empty_file :: bag where
  "bag_empty_file =
     \<lparr>tags = bagit_tags, info = [(''Payload-Oxum'', ''0.1'')],
      entries = [(''data/empty.txt'', [(''md5'', ''0'')])],
      algs = [''md5''], tag_file_name = Some ''bag-info.txt'', path = ''/bag'',
      version = Some ''0.96'', encoding = Some ''UTF-8''\<rparr>"

text \<open>A \<open>hashlib\<close> that knows no algorithm at all.\<close>

definition no_hashlib :: "string hashlib" where
  "no_hashlib = example_hashlib\<lparr>hashlib_new := (\<lambda>a. Inl (KeyError a))\<rparr>"

section \<open>Tag files, in the words of the specification\<close>

text \<open>
  The kinds of line that the specification of the tag-file parser names: a blank line
  (empty or all whitespace), a continuation line (not blank, starts with whitespace) and
  a line that starts a tag (not blank, does not start with whitespace). \<open>tag_of_line\<close>
  splits a line at its first colon and trims the name and the value.
\<close>

definition is_blank :: "string \<Rightarrow> bool" where
  "is_blank l = (l = [] \<or> isspace l)"

definition is_continuation :: "string \<Rightarrow> bool" where
  "is_continuation l = (\<not> is_blank l \<and> isspace_c (hd l))"

definition is_tag_line :: "string \<Rightarrow> bool" where
  "is_tag_line l = (\<not> is_blank l \<and> \<not> isspace_c (hd l))"

definition has_colon :: "string \<Rightarrow> bool" where
  "has_colon l = (CHR '':'' \<in> set l)"

definition tag_of_line :: "string \<Rightarrow> tag" where
  "tag_of_line l =
     (strip (takeWhile (\<lambda>c. c \<noteq> CHR '':'') (strip l)),
      strip (tl (dropWhile (\<lambda>c. c \<noteq> CHR '':'') (strip l))))"

text \<open>The trimmed continuation lines that follow a tag line, up to the next tag line,
  put together without a separator.\<close>

definition continuation :: "string list \<Rightarrow> string" where
  "continuation ls =
     concat (map strip (filter is_continuation (takeWhile (\<lambda>l. \<not> is_tag_line l) ls)))"

text \<open>
  The tags of a file as the specification describes folding: every tag line gives one
  tag, whose value is the value on the line followed by the continuation of the lines
  after it; the tag is complete at the next tag line or at the end of the lines.
\<close>

function folded_tags :: "string list \<Rightarrow> tag list" where
  "folded_tags [] = []"
| "folded_tags (l # ls) =
     (if is_tag_line l
      then (fst (tag_of_line l), snd (tag_of_line l) @ continuation ls)
             # folded_tags (dropWhile (\<lambda>l. \<not> is_tag_line l) ls)
      else folded_tags ls)"
  by pat_completeness auto
termination
  by (relation "measure length") (auto simp: less_Suc_eq_le length_dropWhile_le)

text \<open>The first line as it is parsed: without the bytes of a byte-order mark at its
  start.\<close>

definition strip_bom :: "string list \<Rightarrow> string list" where
  "strip_bom ls =
     (case ls of
        [] \<Rightarrow> []
      | l # rest \<Rightarrow> (if startswith l BOM_UTF8 then lstrip BOM_UTF8 l else l) # rest)"

text \<open>The lines that the parser gets through: every tag line has a colon, and the first
  line that is not blank is a tag line.\<close>

definition well_formed :: "string list \<Rightarrow> bool" where
  "well_formed ls =
     (list_all (\<lambda>l. if is_tag_line l then has_colon l else True) ls \<and>
      (case dropWhile is_blank ls of [] \<Rightarrow> True | l # rest \<Rightarrow> is_tag_line l))"

definition nonempty_name :: "tag \<Rightarrow> bool" where
  "nonempty_name t = (fst t \<noteq> [])"

section \<open>Evaluation on short files\<close>

text \<open>A file that fits into one block is read in one block.\<close>

lemma read_blocks_short:
  "0 < n \<Longrightarrow> length f \<le> n \<Longrightarrow>
   read_blocks hl n f hs = (if f = [] then hs else map (\<lambda>(alg, h). (alg, hash_update hl h f)) hs)"
  by (subst read_blocks.simps, subst read_blocks.simps) simp

lemma str_of_nat_small: "n < 10 \<Longrightarrow> str_of_nat n = [digit n]"
  by (simp add: str_of_nat.simps)

lemmas example_defs =
  example_os_def example_hashlib_def bagit_txt_def bagit_tags_def
  os_missing_def bag_missing_def os_oxum_def bag_oxum_def os_empty_file_def bag_empty_file_def

text \<open>The example bags are what the constructor loads from the example file systems.\<close>

lemma bag_missing_loaded: "Bag os_missing ''/bag/'' = Inr (bag_missing, [])"
  by code_simp

lemma bag_oxum_loaded: "Bag os_oxum ''/bag'' = Inr (bag_oxum, [])"
  by code_simp

lemma bag_empty_file_loaded: "Bag os_empty_file ''/bag'' = Inr (bag_empty_file, [])"
  by code_simp

lemma entries_oxum: "validate_entries os_oxum example_hashlib bag_oxum = Inr ()"
  by (simp add: validate_entries_def compare_manifests_with_fs_def payload_files_def
        calculate_file_hashes_def read_blocks_short str_of_nat_small checksum_algos_def
        join_def startswith_def endswith_def normpath_def split_def sep_def
        example_defs Let_def digit_def)

lemma entries_empty_file: "validate_entries os_empty_file example_hashlib bag_empty_file = Inr ()"
  by (simp add: validate_entries_def compare_manifests_with_fs_def payload_files_def
        calculate_file_hashes_def read_blocks_short str_of_nat_small checksum_algos_def
        join_def startswith_def endswith_def normpath_def split_def sep_def
        example_defs Let_def digit_def)

lemma oxum_oxum:
  "validate_oxum os_oxum bag_oxum = Inl (BagValidationError (Oxum_error 1 3 1 5))"
  by code_simp

lemma phases_empty_file:
  "validate_structure os_empty_file bag_empty_file = Inr ()"
  "validate_bagittxt os_empty_file bag_empty_file = Inr ()"
  "validate_oxum os_empty_file bag_empty_file = Inr ()"
  by code_simp+

lemma valid_fast_empty_file:
  "validate os_empty_file example_hashlib bag_empty_file True = Inr True"
  by code_simp

lemma invalid_missing:
  "validate os_missing example_hashlib bag_missing False
     = Inl (BagValidationError (Does_not_exist ''/bag/data/a.txt''))"
  by code_simp

section \<open>Properties of validation\<close>

lemma make_hashers_none:
  "list_all (\<lambda>a. case hashlib_new hl a of Inl e \<Rightarrow> is_KeyError e | Inr h \<Rightarrow> False) as
     \<Longrightarrow> make_hashers hl as hs = Inr hs"
  by (induction as arbitrary: hs) (auto split: sum.splits)

text \<open>
  Claim C10. For every bag and every value of \<open>fast\<close>: \<open>is_valid\<close> returns \<open>True\<close> when
  \<open>validate\<close> raises nothing; it returns \<open>False\<close> exactly when \<open>validate\<close> raises a
  \<open>BagError\<close> or a \<open>BagValidationError\<close>; any other exception of \<open>validate\<close> leaves
  \<open>is_valid\<close> as it is. One such exception is the \<open>RuntimeError\<close> of \<open>_validate_entries\<close>:
  when the phases before it pass and \<open>hashlib.new\<close> raises \<open>KeyError\<close> for every algorithm
  of the bag, \<open>is_valid(fast=False)\<close> raises it.
\<close>

theorem is_valid_outcomes:
  "(validate os hl self fast = Inr v \<longrightarrow> is_valid os hl self fast = Inr True) \<and>
   (is_valid os hl self fast = Inr False
      \<longleftrightarrow> (\<exists>e. validate os hl self fast = Inl e \<and> is_BagError e)) \<and>
   (validate os hl self fast = Inl e \<and> \<not> is_BagError e \<longrightarrow> is_valid os hl self fast = Inl e) \<and>
   (validate_structure os self = Inr () \<and> validate_bagittxt os self = Inr ()
      \<and> validate_oxum os self = Inr ()
      \<and> list_all (\<lambda>a. case hashlib_new hl a of Inl e \<Rightarrow> is_KeyError e | Inr h \<Rightarrow> False) (algs self)
      \<longrightarrow> is_valid os hl self False
            = Inl (RuntimeError (No_supported_algorithm (path self) (algs self))))"
proof (intro conjI impI)
  show "is_valid os hl self fast = Inr True" if "validate os hl self fast = Inr v"
    using that by (simp add: is_valid_def)
  show "is_valid os hl self fast = Inr False
          \<longleftrightarrow> (\<exists>e. validate os hl self fast = Inl e \<and> is_BagError e)"
    by (cases "validate os hl self fast") (auto simp: is_valid_def)
  show "is_valid os hl self fast = Inl e"
    if "validate os hl self fast = Inl e \<and> \<not> is_BagError e"
    using that by (simp add: is_valid_def)
  show "is_valid os hl self False
          = Inl (RuntimeError (No_supported_algorithm (path self) (algs self)))"
    if h: "validate_structure os self = Inr () \<and> validate_bagittxt os self = Inr ()
      \<and> validate_oxum os self = Inr ()
      \<and> list_all (\<lambda>a. case hashlib_new hl a of Inl e \<Rightarrow> is_KeyError e | Inr h \<Rightarrow> False) (algs self)"
  proof -
    from h have m: "make_hashers hl (algs self) [] = Inr []"
      by (simp add: make_hashers_none)
    from h m show ?thesis
      by (simp add: is_valid_def validate_def validate_contents_def validate_entries_def
            split: prod.splits)
  qed
qed

text \<open>The three outcomes on example bags: a valid bag, a bag with a payload file
  missing, and a valid bag checked with a \<open>hashlib\<close> that knows no algorithm.\<close>

theorem is_valid_outcomes_witness:
  "is_valid os_empty_file example_hashlib bag_empty_file True = Inr True \<and>
   is_valid os_missing example_hashlib bag_missing False = Inr False \<and>
   is_valid os_empty_file no_hashlib bag_empty_file False
     = Inl (RuntimeError (No_supported_algorithm ''/bag'' [''md5'']))"
proof (intro conjI)
  note t1 = is_valid_outcomes [of os_empty_file example_hashlib bag_empty_file True True]
  show "is_valid os_empty_file example_hashlib bag_empty_file True = Inr True"
    using t1 [THEN conjunct1] valid_fast_empty_file by simp
  note t2 = is_valid_outcomes [of os_missing example_hashlib bag_missing False]
  have "\<exists>e. validate os_missing example_hashlib bag_missing False = Inl e \<and> is_BagError e"
    using invalid_missing by simp
  then show "is_valid os_missing example_hashlib bag_missing False = Inr False"
    using t2 [THEN conjunct2, THEN conjunct1] by simp
  note t3 = is_valid_outcomes [of os_empty_file no_hashlib bag_empty_file]
  have k: "list_all (\<lambda>a. case hashlib_new no_hashlib a of Inl e \<Rightarrow> is_KeyError e | Inr h \<Rightarrow> False)
         (algs bag_empty_file)"
    by (simp add: no_hashlib_def bag_empty_file_def)
  have "is_valid os_empty_file no_hashlib bag_empty_file False
     = Inl (RuntimeError (No_supported_algorithm (path bag_empty_file) (algs bag_empty_file)))"
    using t3 [THEN conjunct2, THEN conjunct2, THEN conjunct2] phases_empty_file k by simp
  then show "is_valid os_empty_file no_hashlib bag_empty_file False
     = Inl (RuntimeError (No_supported_algorithm ''/bag'' [''md5'']))"
    by (simp add: bag_empty_file_def)
qed

lemma oxum_totals_open_rb:
  "oxum_totals (os\<lparr>open_rb := r\<rparr>) root fs acc = oxum_totals os root fs acc"
  by (induction fs arbitrary: acc) (auto split: sum.splits)

lemma payload_files_open_rb: "payload_files (os\<lparr>open_rb := r\<rparr>) self = payload_files os self"
  by (simp add: payload_files_def)

lemma validate_oxum_open_rb: "validate_oxum (os\<lparr>open_rb := r\<rparr>) self = validate_oxum os self"
  unfolding validate_oxum_def payload_files_open_rb oxum_totals_open_rb ..

lemma payload_files_entries_algs:
  "payload_files os (self\<lparr>entries := ents, algs := as\<rparr>) = payload_files os self"
  by (simp add: payload_files_def)

lemma validate_oxum_entries_algs:
  "validate_oxum os (self\<lparr>entries := ents, algs := as\<rparr>) = validate_oxum os self"
  unfolding validate_oxum_def payload_files_entries_algs
  by (auto split: option.splits list.splits)

text \<open>
  Claim C2, as the code has it. With \<open>fast=True\<close> the contents phase is the Payload-Oxum
  comparison and nothing else (it needs the tag, and it does not depend on the entries,
  the algorithms or \<open>hashlib\<close>). With \<open>fast=False\<close> the Payload-Oxum comparison is made
  first, whenever the tag is there: its exception is the one raised, and the full check
  of the entries follows only when it has passed.
\<close>

theorem validate_contents_modes:
  "(has_oxum self \<longrightarrow> validate_contents os hl self True = validate_oxum os self) \<and>
   (\<not> has_oxum self \<longrightarrow>
      validate_contents os hl self True = Inl (BagValidationError Fast_without_oxum)) \<and>
   validate_contents os hl' (self\<lparr>entries := ents, algs := as\<rparr>) True
     = validate_contents os hl self True \<and>
   (validate_oxum os self = Inl e \<longrightarrow> validate_contents os hl self False = Inl e) \<and>
   (validate_oxum os self = Inr () \<longrightarrow>
      validate_contents os hl self False = validate_entries os hl self)"
proof (intro conjI impI)
  show "validate_contents os hl self True = validate_oxum os self" if "has_oxum self"
    using that by (cases "validate_oxum os self") (simp_all add: validate_contents_def)
  show "validate_contents os hl self True = Inl (BagValidationError Fast_without_oxum)"
    if "\<not> has_oxum self"
    using that by (simp add: validate_contents_def)
  show "validate_contents os hl' (self\<lparr>entries := ents, algs := as\<rparr>) True
          = validate_contents os hl self True"
    by (simp add: validate_contents_def validate_oxum_entries_algs has_oxum_def)
  show "validate_contents os hl self False = Inl e" if "validate_oxum os self = Inl e"
    using that by (simp add: validate_contents_def)
  show "validate_contents os hl self False = validate_entries os hl self"
    if "validate_oxum os self = Inr ()"
    using that by (simp add: validate_contents_def)
qed

text \<open>On the example bags: fast mode without the tag, fast mode and full mode with a
  Payload-Oxum that is wrong, full mode with one that is right.\<close>

theorem validate_contents_modes_witness:
  "validate_contents os_missing example_hashlib bag_missing True
     = Inl (BagValidationError Fast_without_oxum) \<and>
   validate_contents os_oxum example_hashlib bag_oxum True
     = Inl (BagValidationError (Oxum_error 1 3 1 5)) \<and>
   validate_contents os_oxum example_hashlib bag_oxum False
     = Inl (BagValidationError (Oxum_error 1 3 1 5)) \<and>
   validate_contents os_empty_file example_hashlib bag_empty_file False = Inr ()"
proof (intro conjI)
  note t1 = validate_contents_modes [where self = bag_missing and os = os_missing
      and hl = example_hashlib]
  have "\<not> has_oxum bag_missing" by (simp add: has_oxum_def bag_missing_def)
  then show "validate_contents os_missing example_hashlib bag_missing True
     = Inl (BagValidationError Fast_without_oxum)"
    using t1 [THEN conjunct2, THEN conjunct1] by simp
  note t2 = validate_contents_modes [where self = bag_oxum and os = os_oxum
      and hl = example_hashlib]
  have "has_oxum bag_oxum" by (simp add: has_oxum_def bag_oxum_def)
  then show "validate_contents os_oxum example_hashlib bag_oxum True
     = Inl (BagValidationError (Oxum_error 1 3 1 5))"
    using t2 [THEN conjunct1] oxum_oxum by simp
  show "validate_contents os_oxum example_hashlib bag_oxum False
     = Inl (BagValidationError (Oxum_error 1 3 1 5))"
    using t2 [THEN conjunct2, THEN conjunct2, THEN conjunct2, THEN conjunct1] oxum_oxum by simp
  note t3 = validate_contents_modes [where self = bag_empty_file and os = os_empty_file
      and hl = example_hashlib]
  show "validate_contents os_empty_file example_hashlib bag_empty_file False = Inr ()"
    using t3 [THEN conjunct2, THEN conjunct2, THEN conjunct2, THEN conjunct2]
      phases_empty_file(3) entries_empty_file by simp
qed

text \<open>The claim as the specification states it fails: on the example bag whose
  Payload-Oxum declares five bytes for a payload of three, the full check of the entries
  finds nothing wrong, and validation with \<open>fast=False\<close> still raises the Payload-Oxum
  error, so the comparison has been made.\<close>

theorem full_mode_compares_oxum_counterexample:
  "validate_entries os_oxum example_hashlib bag_oxum = Inr () \<and>
   validate_contents os_oxum example_hashlib bag_oxum False
     = Inl (BagValidationError (Oxum_error 1 3 1 5)) \<and>
   validate os_oxum example_hashlib bag_oxum False
     = Inl (BagValidationError (Oxum_error 1 3 1 5))"
proof (intro conjI)
  show "validate_entries os_oxum example_hashlib bag_oxum = Inr ()"
    by (rule entries_oxum)
  show c: "validate_contents os_oxum example_hashlib bag_oxum False
     = Inl (BagValidationError (Oxum_error 1 3 1 5))"
    by (simp add: validate_contents_def oxum_oxum)
  have "validate_structure os_oxum bag_oxum = Inr ()" "validate_bagittxt os_oxum bag_oxum = Inr ()"
    by code_simp+
  then show "validate os_oxum example_hashlib bag_oxum False
     = Inl (BagValidationError (Oxum_error 1 3 1 5))"
    by (simp add: validate_def c)
qed

lemma digit_no_dot: "isdigit s \<Longrightarrow> CHR ''.'' \<notin> set s"
  by (auto simp: isdigit_def isdigit_c_def list_all_iff less_eq_char_def)

lemma split1_dot:
  "isdigit byte_count \<Longrightarrow> split1 (CHR ''.'') (byte_count @ ''.'' @ file_count) = [byte_count, file_count]"
proof -
  assume "isdigit byte_count"
  then have n: "\<And>c. c \<in> set byte_count \<Longrightarrow> c \<noteq> CHR ''.''"
    using digit_no_dot by auto
  have d: "dropWhile (\<lambda>c. c \<noteq> CHR ''.'') (byte_count @ ''.'' @ file_count) = ''.'' @ file_count"
    using n by (simp add: dropWhile_append2)
  have t: "takeWhile (\<lambda>c. c \<noteq> CHR ''.'') (byte_count @ ''.'' @ file_count) = byte_count"
    using n by (simp add: takeWhile_append2)
  show ?thesis
    unfolding split1_def d t by simp
qed

lemma oxum_totals_sizes:
  "map_exn (\<lambda>f. os_stat_st_size os (join root f)) fs = Inr sizes \<Longrightarrow>
   oxum_totals os root fs (total_bytes, total_files)
     = Inr (total_bytes + sum_list sizes, total_files + length sizes)"
proof (induction fs arbitrary: sizes total_bytes total_files)
  case Nil
  then show ?case by simp
next
  case (Cons f fs)
  then show ?case by (auto split: sum.splits simp: add.assoc)
qed

text \<open>
  Claim C3. In the contents phase with \<open>fast=True\<close>: a bag without a \<open>Payload-Oxum\<close>
  tag raises the error that fast mode is not available. A bag whose tag is
  \<open>byte_count.file_count\<close>, both strings of digits, has its payload files walked and
  \<open>os.stat\<close> called on each; when every call answers, the error that carries the files
  and bytes found and the files and bytes declared is raised exactly when the number of
  the files or the sum of their sizes differs from the declared one, and validation
  succeeds otherwise. Nothing is opened and \<open>hashlib\<close> is not used. \<open>validate(fast=True)\<close>
  is this phase when the two phases before it pass. A bag that declares \<open>0.1\<close> and has
  one payload file of size zero passes.
\<close>

theorem fast_validation:
  "(map_of (info self) ''Payload-Oxum'' = None \<longrightarrow>
      validate_contents os hl self True = Inl (BagValidationError Fast_without_oxum)) \<and>
   (map_of (info self) ''Payload-Oxum'' = Some (byte_count @ ''.'' @ file_count)
      \<and> isdigit byte_count \<and> isdigit file_count
      \<and> map_exn (\<lambda>f. os_stat_st_size os (join (path self) f)) (payload_files os self) = Inr sizes
      \<longrightarrow> validate_contents os hl self True =
            (if long file_count \<noteq> length sizes \<or> long byte_count \<noteq> sum_list sizes
             then Inl (BagValidationError
                         (Oxum_error (length sizes) (sum_list sizes)
                            (long file_count) (long byte_count)))
             else Inr ())) \<and>
   validate_contents (os\<lparr>open_rb := r\<rparr>) hl' self True = validate_contents os hl self True \<and>
   (validate_structure os self = Inr () \<and> validate_bagittxt os self = Inr () \<longrightarrow>
      validate os hl self True
        = (case validate_contents os hl self True of Inl e \<Rightarrow> Inl e | Inr u \<Rightarrow> Inr True)) \<and>
   (map_of (info self) ''Payload-Oxum'' = Some ''0.1'' \<and> payload_files os self = [f]
      \<and> os_stat_st_size os (join (path self) f) = Inr 0
      \<longrightarrow> validate_contents os hl self True = Inr ())"
proof (intro conjI impI)
  show "validate_contents os hl self True = Inl (BagValidationError Fast_without_oxum)"
    if "map_of (info self) ''Payload-Oxum'' = None"
    using that by (simp add: validate_contents_def has_oxum_def)
  show "validate_contents os hl self True =
            (if long file_count \<noteq> length sizes \<or> long byte_count \<noteq> sum_list sizes
             then Inl (BagValidationError
                         (Oxum_error (length sizes) (sum_list sizes)
                            (long file_count) (long byte_count)))
             else Inr ())"
    if h: "map_of (info self) ''Payload-Oxum'' = Some (byte_count @ ''.'' @ file_count)
      \<and> isdigit byte_count \<and> isdigit file_count
      \<and> map_exn (\<lambda>f. os_stat_st_size os (join (path self) f)) (payload_files os self) = Inr sizes"
  proof -
    from h have t: "oxum_totals os (path self) (payload_files os self) (0, 0)
                      = Inr (sum_list sizes, length sizes)"
      using oxum_totals_sizes [of os "path self" "payload_files os self" sizes 0 0] by simp
    from h have s: "split1 (CHR ''.'') (byte_count @ ''.'' @ file_count) = [byte_count, file_count]"
      using split1_dot [of byte_count file_count] by simp
    from h t s show ?thesis
      by (simp add: validate_contents_def has_oxum_def validate_oxum_def)
  qed
  show "validate_contents (os\<lparr>open_rb := r\<rparr>) hl' self True = validate_contents os hl self True"
    by (simp add: validate_contents_def validate_oxum_open_rb)
  show "validate os hl self True
        = (case validate_contents os hl self True of Inl e \<Rightarrow> Inl e | Inr u \<Rightarrow> Inr True)"
    if "validate_structure os self = Inr () \<and> validate_bagittxt os self = Inr ()"
    using that by (simp add: validate_def)
  show "validate_contents os hl self True = Inr ()"
    if h: "map_of (info self) ''Payload-Oxum'' = Some ''0.1'' \<and> payload_files os self = [f]
      \<and> os_stat_st_size os (join (path self) f) = Inr 0"
  proof -
    have "split1 (CHR ''.'') ''0.1'' = [''0'', ''1'']" "isdigit ''0''" "isdigit ''1''"
      "long ''0'' = 0" "long ''1'' = 1"
      by code_simp+
    with h show ?thesis
      by (simp add: validate_contents_def has_oxum_def validate_oxum_def)
  qed
qed

text \<open>On the example bags: no tag; five bytes declared for a payload of three; and the
  bag with one empty payload file that declares \<open>0.1\<close>, which \<open>validate(fast=True)\<close>
  accepts.\<close>

theorem fast_validation_witness:
  "validate_contents os_missing example_hashlib bag_missing True
     = Inl (BagValidationError Fast_without_oxum) \<and>
   validate_contents os_oxum example_hashlib bag_oxum True
     = Inl (BagValidationError (Oxum_error 1 3 1 5)) \<and>
   validate_contents os_empty_file example_hashlib bag_empty_file True = Inr () \<and>
   validate os_empty_file example_hashlib bag_empty_file True = Inr True"
proof -
  note t1 = fast_validation [where self = bag_missing and os = os_missing
      and hl = example_hashlib]
  have "map_of (info bag_missing) ''Payload-Oxum'' = None" by (simp add: bag_missing_def)
  then have 1: "validate_contents os_missing example_hashlib bag_missing True
     = Inl (BagValidationError Fast_without_oxum)"
    using t1 [THEN conjunct1] by simp
  note t2 = fast_validation [where self = bag_oxum and byte_count = "''5''"
      and file_count = "''1''" and os = os_oxum and sizes = "[3]" and hl = example_hashlib]
  have "map_of (info bag_oxum) ''Payload-Oxum'' = Some (''5'' @ ''.'' @ ''1'')"
    "isdigit ''5''" "isdigit ''1''"
    "map_exn (\<lambda>f. os_stat_st_size os_oxum (join (path bag_oxum) f)) (payload_files os_oxum bag_oxum)
       = Inr [3]"
    "long ''5'' = 5" "long ''1'' = 1"
    by code_simp+
  then have 2: "validate_contents os_oxum example_hashlib bag_oxum True
     = Inl (BagValidationError (Oxum_error 1 3 1 5))"
    using t2 [THEN conjunct2, THEN conjunct1] by simp
  note t3 = fast_validation [where self = bag_empty_file and os = os_empty_file
      and hl = example_hashlib and f = "''data/empty.txt''"]
  have "map_of (info bag_empty_file) ''Payload-Oxum'' = Some ''0.1''"
    "payload_files os_empty_file bag_empty_file = [''data/empty.txt'']"
    "os_stat_st_size os_empty_file (join (path bag_empty_file) ''data/empty.txt'') = Inr 0"
    by code_simp+
  then have 3: "validate_contents os_empty_file example_hashlib bag_empty_file True = Inr ()"
    using t3 [THEN conjunct2, THEN conjunct2, THEN conjunct2, THEN conjunct2] by simp
  have 4: "validate os_empty_file example_hashlib bag_empty_file True = Inr True"
    using t3 [THEN conjunct2, THEN conjunct2, THEN conjunct2, THEN conjunct1]
      phases_empty_file(1,2) 3 by simp
  from 1 2 3 4 show ?thesis by simp
qed

text \<open>
  Claim C1 on the code. The example bag lists \<open>data/a.txt\<close> in its manifest and has
  \<open>data/b.txt\<close> on disk: two discrepancies, both found by the comparison of the
  manifest with the file system and both put into \<open>errors\<close>. The loop over the entries
  then raises the error of \<open>_calculate_file_hashes\<close> for the missing file, and the
  error that would list the two discrepancies is never raised.
\<close>

theorem missing_file_not_aggregated:
  "compare_manifests_with_fs os_missing bag_missing = ([''data/a.txt''], [''data/b.txt'']) \<and>
   validate os_missing example_hashlib bag_missing False
     = Inl (BagValidationError (Does_not_exist ''/bag/data/a.txt''))"
  by code_simp

end
